theory Spec2Isabelle
  imports Complex_Main
begin

section \<open>Python values, failures and containers\<close>

text \<open>
  Modelled from the spec: the enumeration \<open>MetricName\<close> lives in \<open>src/utils/types.py\<close>,
  which is not among the sources. The spec enumerates the set \<open>{Accuracy, BalancedAccuracy}\<close>;
  the trainer's \<open>match\<close> names the members \<open>MetricName.acc\<close> and \<open>MetricName.bacc\<close>. Python does
  not enforce the annotation of the constructor's argument, so any other value can arrive
  there; \<open>MetricName_other\<close> stands for such a value.
\<close>

datatype metric_name = MetricName_acc | MetricName_bacc | MetricName_other string

text \<open>
  Exceptions are values. \<open>Raised\<close> is an exception raised inside an external collaborator
  (a client capability, torch, sklearn); the trainer has no \<open>try\<close>, so it propagates.
\<close>

datatype error =
    UnknownNameCustomEnumException metric_name
  | IndexError
  | KeyError
  | AttributeError
  | Raised string

definition bind_err :: "error + 'a \<Rightarrow> ('a \<Rightarrow> error + 'b) \<Rightarrow> error + 'b" where
  "bind_err m f = (case m of Inl x \<Rightarrow> Inl x | Inr v \<Rightarrow> f v)"

text \<open>The \<open>mode\<close> argument of \<open>client.test\<close>: the strings \<open>'train'\<close> and \<open>'test'\<close>.\<close>

datatype mode = Mode_train | Mode_test

text \<open>
  Accuracies are scalars; they are taken as real numbers, rounding left aside. \<open>np.mean\<close> of
  an empty sequence is \<open>nan\<close> (with a warning, not an exception), and \<open>nan\<close> absorbs
  subtraction.
\<close>

datatype npfloat = NaN | Num real

definition np_mean :: "real list \<Rightarrow> npfloat" where
  "np_mean xs = (if xs = [] then NaN else Num (sum_list xs / real (length xs)))"

fun fsub :: "npfloat \<Rightarrow> npfloat \<Rightarrow> npfloat" where
  "fsub (Num a) (Num b) = Num (a - b)"
| "fsub _ _ = NaN"

text \<open>
  Python list indexing: an index from \<open>-len\<close> to \<open>len - 1\<close> is accepted, a negative one
  counting from the end; anything else raises \<open>IndexError\<close>.
\<close>

definition py_index :: "nat \<Rightarrow> int \<Rightarrow> error + nat" where
  "py_index len i =
     (if 0 \<le> i \<and> i < int len then Inr (nat i)
      else if i < 0 \<and> - int len \<le> i then Inr (nat (int len + i))
      else Inl IndexError)"

definition py_getitem :: "'a list \<Rightarrow> int \<Rightarrow> error + 'a" where
  "py_getitem xs i = bind_err (py_index (length xs) i) (\<lambda>j. Inr (xs ! j))"

text \<open>\<open>xss[i].append(v)\<close> on a list of lists.\<close>

definition py_append_at :: "'a list list \<Rightarrow> int \<Rightarrow> 'a \<Rightarrow> error + 'a list list" where
  "py_append_at xss i v =
     bind_err (py_index (length xss) i) (\<lambda>j. Inr (xss[j := xss ! j @ [v]]))"

section \<open>External collaborators\<close>

text \<open>
  The \<open>Client\<close> class, torch and sklearn are outside the trainer. They are parameters of the
  model. A client is a handle \<open>'c\<close>; everything a capability may read or change (the private
  models, random state) is the world \<open>'w\<close>, threaded through every call. All tensors have the
  type \<open>'t\<close>, the reference loader the type \<open>'r\<close>. Each capability may raise.
\<close>

record ('c, 'r, 't, 'w) collaborators =
  calculate_soft_decision_target ::
    "'c \<Rightarrow> int \<Rightarrow> 't list \<Rightarrow> 'w \<Rightarrow> error + (('t option \<times> 't) \<times> 'w)"
  client_train :: "'c \<Rightarrow> 'r \<Rightarrow> 't option \<Rightarrow> 'w \<Rightarrow> error + 'w"
  client_test :: "'c \<Rightarrow> metric_name \<Rightarrow> mode \<Rightarrow> 'w \<Rightarrow> error + (real \<times> 'w)"
  infer_on_refdata :: "'c \<Rightarrow> 'r \<Rightarrow> 'w \<Rightarrow> error + (('t \<times> 't) \<times> 'w)"
  accuracy_score :: "'t \<Rightarrow> 't \<Rightarrow> error + real"
  balanced_accuracy_score :: "'t \<Rightarrow> 't \<Rightarrow> error + real"
  torch_argmax :: "'t \<Rightarrow> error + 't"
  torch_stack :: "'t list \<Rightarrow> error + 't"

text \<open>
  What the trainer does to the outside is recorded: every capability call with its
  arguments and its result, tagged with the global epoch in which it is made, and every
  record handed to the progress bar and to wandb. The reference loader is the same in every
  call and is left out of the record.
\<close>

datatype ('c, 't) call =
    CalculateSoftDecisionTarget 'c int "'t list" "'t option" 't
  | Train 'c "'t option"
  | Test 'c metric_name mode real
  | InferOnRefdata 'c 't 't

datatype report =
    SetDescription npfloat npfloat npfloat npfloat
  | WandbLogGlobal npfloat npfloat
  | WandbLogClients int "real list" "real list" "real list"

record ('c, 't, 'w) outside =
  world :: 'w
  calls :: "(int \<times> ('c, 't) call) list"
  reports :: "(int \<times> report) list"

definition record_call ::
  "int \<Rightarrow> ('c, 't) call \<Rightarrow> 'w \<Rightarrow> ('c, 't, 'w) outside \<Rightarrow> ('c, 't, 'w) outside" where
  "record_call e c w out = out\<lparr>world := w, calls := calls out @ [(e, c)]\<rparr>"

definition record_report ::
  "int \<Rightarrow> report \<Rightarrow> ('c, 't, 'w) outside \<Rightarrow> ('c, 't, 'w) outside" where
  "record_report e r out = out\<lparr>reports := reports out @ [(e, r)]\<rparr>"

section \<open>The trainer\<close>

text \<open>
  A slot of \<open>trust_weights_round\<close> holds a Python list of tensors, or the tensor that
  \<open>torch.stack\<close> made of it.
\<close>

datatype 't trust_weights = WeightList "'t list" | WeightTensor 't

record ('c, 'r, 't) trainer =
  clients :: "(int \<times> 'c) list"
  ref_loader :: 'r
  clients_sample_size :: "int list"
  pretraining_rounds :: int
  num_local_epochs :: int
  metric_name :: metric_name
  metric :: "'t \<Rightarrow> 't \<Rightarrow> error + real"
  soft_decisions :: "'t list list"
  train_accuracies :: "real list list"
  test_accuracies :: "real list list"
  ref_accuracies :: "real list list"
  trust_weights_round :: "int \<rightharpoonup> 't trust_weights"

text \<open>\<open>Trainer.__init__\<close>: the dictionary of clients is kept in its iteration order.\<close>

definition init ::
  "('c, 'r, 't, 'w) collaborators \<Rightarrow> (int \<times> 'c) list \<Rightarrow> 'r \<Rightarrow> int list \<Rightarrow> int \<Rightarrow> int \<Rightarrow>
   metric_name \<Rightarrow> error + ('c, 'r, 't) trainer" where
  "init env cl rl css pr nle m =
     bind_err
       (case m of
          MetricName_acc \<Rightarrow> Inr (accuracy_score env)
        | MetricName_bacc \<Rightarrow> Inr (balanced_accuracy_score env)
        | _ \<Rightarrow> Inl (UnknownNameCustomEnumException m))
       (\<lambda>f. Inr \<lparr>clients = cl, ref_loader = rl, clients_sample_size = css,
                 pretraining_rounds = pr, num_local_epochs = nle, metric_name = m,
                 metric = f, soft_decisions = [], train_accuracies = [],
                 test_accuracies = [], ref_accuracies = [],
                 trust_weights_round = Map.empty\<rparr>)"

text \<open>
  \<open>Trainer.__local_epoch\<close>. The epoch \<open>e\<close> is not an argument in the source: it only tags
  the recorded call.
\<close>

definition local_epoch ::
  "('c, 'r, 't, 'w) collaborators \<Rightarrow> ('c, 'r, 't) trainer \<Rightarrow> int \<Rightarrow> 'c \<Rightarrow> 't option \<Rightarrow>
   ('c, 't, 'w) outside \<Rightarrow> error + ('c, 't, 'w) outside" where
  "local_epoch env tr e client soft_decision_target out =
     bind_err (client_train env client (ref_loader tr) soft_decision_target (world out))
       (\<lambda>w. Inr (record_call e (Train client soft_decision_target) w out))"

text \<open>The loop over \<open>range(self.num_local_epochs)\<close>, by the number of iterations left.\<close>

fun local_epochs ::
  "('c, 'r, 't, 'w) collaborators \<Rightarrow> ('c, 'r, 't) trainer \<Rightarrow> int \<Rightarrow> 'c \<Rightarrow> 't option \<Rightarrow> nat \<Rightarrow>
   ('c, 't, 'w) outside \<Rightarrow> error + ('c, 't, 'w) outside" where
  "local_epochs env tr e client tgt 0 out = Inr out"
| "local_epochs env tr e client tgt (Suc k) out =
     bind_err (local_epoch env tr e client tgt out) (local_epochs env tr e client tgt k)"

text \<open>\<open>self.trust_weights_round[e].append(trust_weight)\<close>.\<close>

definition append_trust_weight ::
  "(int \<rightharpoonup> 't trust_weights) \<Rightarrow> int \<Rightarrow> 't \<Rightarrow> error + (int \<rightharpoonup> 't trust_weights)" where
  "append_trust_weight d e tw =
     (case d e of
        None \<Rightarrow> Inl KeyError
      | Some (WeightTensor t) \<Rightarrow> Inl AttributeError
      | Some (WeightList ws) \<Rightarrow> Inr (d(e \<mapsto> WeightList (ws @ [tw]))))"

text \<open>
  The body of the loop of \<open>Trainer.__global_epoch\<close>, in three parts: lines 99 to 104,
  lines 106 and 107, lines 109 to 119.
\<close>

definition phase_gate ::
  "('c, 'r, 't, 'w) collaborators \<Rightarrow> int \<Rightarrow> 'c \<Rightarrow> ('c, 'r, 't) trainer \<times> ('c, 't, 'w) outside \<Rightarrow>
   error + ('t option \<times> ('c, 'r, 't) trainer \<times> ('c, 't, 'w) outside)" where
  "phase_gate env e client s =
     (case s of (tr, out) \<Rightarrow>
        if e < pretraining_rounds tr then Inr (None, tr, out)
        else
          bind_err (py_getitem (soft_decisions tr) (e - 1)) (\<lambda>prior.
          bind_err (calculate_soft_decision_target env client e prior (world out))
            (\<lambda>((soft_decision_target, trust_weight), w).
          bind_err (append_trust_weight (trust_weights_round tr) e trust_weight) (\<lambda>d.
            Inr (soft_decision_target, tr\<lparr>trust_weights_round := d\<rparr>,
                 record_call e
                   (CalculateSoftDecisionTarget client e prior soft_decision_target
                      trust_weight) w out)))))"

definition evaluate ::
  "('c, 'r, 't, 'w) collaborators \<Rightarrow> int \<Rightarrow> 'c \<Rightarrow> ('c, 'r, 't) trainer \<times> ('c, 't, 'w) outside \<Rightarrow>
   error + (('c, 'r, 't) trainer \<times> ('c, 't, 'w) outside)" where
  "evaluate env e client s =
     (case s of (tr, out) \<Rightarrow>
        bind_err (client_test env client (metric_name tr) Mode_train (world out))
          (\<lambda>(train_acc, w1).
        bind_err (py_append_at (train_accuracies tr) e train_acc) (\<lambda>tra.
        bind_err (infer_on_refdata env client (ref_loader tr) w1)
          (\<lambda>((soft_decision, ref_y), w2).
        bind_err (py_append_at (soft_decisions tr) e soft_decision) (\<lambda>sds.
        bind_err (client_test env client (metric_name tr) Mode_test w2)
          (\<lambda>(test_acc, w3).
        bind_err (py_append_at (test_accuracies tr) e test_acc) (\<lambda>tea.
        bind_err (torch_argmax env soft_decision) (\<lambda>ref_pred.
        bind_err (metric tr ref_y ref_pred) (\<lambda>ref_acc.
        bind_err (py_append_at (ref_accuracies tr) e ref_acc) (\<lambda>rea.
          Inr (tr\<lparr>soft_decisions := sds, train_accuracies := tra,
                  test_accuracies := tea, ref_accuracies := rea\<rparr>,
               out\<lparr>world := w3,
                   calls := calls out @
                     [(e, Test client (metric_name tr) Mode_train train_acc),
                      (e, InferOnRefdata client soft_decision ref_y),
                      (e, Test client (metric_name tr) Mode_test test_acc)]\<rparr>)))))))))))"

definition client_turn ::
  "('c, 'r, 't, 'w) collaborators \<Rightarrow> int \<Rightarrow> int \<times> 'c \<Rightarrow>
   ('c, 'r, 't) trainer \<times> ('c, 't, 'w) outside \<Rightarrow>
   error + (('c, 'r, 't) trainer \<times> ('c, 't, 'w) outside)" where
  "client_turn env e ic s =
     (case ic of (idx, client) \<Rightarrow>
        bind_err (phase_gate env e client s) (\<lambda>(soft_decision_target, tr, out).
        bind_err (local_epochs env tr e client soft_decision_target
                    (nat (num_local_epochs tr)) out) (\<lambda>out'.
          evaluate env e client (tr, out'))))"

fun global_epoch_loop ::
  "('c, 'r, 't, 'w) collaborators \<Rightarrow> int \<Rightarrow> (int \<times> 'c) list \<Rightarrow>
   ('c, 'r, 't) trainer \<times> ('c, 't, 'w) outside \<Rightarrow>
   error + (('c, 'r, 't) trainer \<times> ('c, 't, 'w) outside)" where
  "global_epoch_loop env e [] s = Inr s"
| "global_epoch_loop env e (ic # ics) s =
     bind_err (client_turn env e ic s) (global_epoch_loop env e ics)"

text \<open>\<open>Trainer.__global_epoch\<close>.\<close>

definition global_epoch ::
  "('c, 'r, 't, 'w) collaborators \<Rightarrow> int \<Rightarrow>
   ('c, 'r, 't) trainer \<times> ('c, 't, 'w) outside \<Rightarrow>
   error + (('c, 'r, 't) trainer \<times> ('c, 't, 'w) outside)" where
  "global_epoch env current_global_epoch s =
     global_epoch_loop env current_global_epoch (clients (fst s)) s"

text \<open>
  Lines 60 to 62 of \<open>Trainer.train\<close>. The slot was assigned a fresh list at the top of the
  iteration and \<open>__global_epoch\<close> only appends to it, so it holds a list here; the other two
  branches are given errors of their own.
\<close>

definition consolidate ::
  "('c, 'r, 't, 'w) collaborators \<Rightarrow> int \<Rightarrow> ('c, 'r, 't) trainer \<Rightarrow>
   error + ('c, 'r, 't) trainer" where
  "consolidate env e tr =
     (case trust_weights_round tr e of
        None \<Rightarrow> Inl KeyError
      | Some (WeightTensor t) \<Rightarrow> Inl AttributeError
      | Some (WeightList ws) \<Rightarrow>
          if length ws > 0 then
            bind_err (torch_stack env ws) (\<lambda>t.
              Inr (tr\<lparr>trust_weights_round := (trust_weights_round tr)(e \<mapsto> WeightTensor t)\<rparr>))
          else Inr tr)"

text \<open>
  One iteration of the loop of \<open>Trainer.train\<close> (lines 52 to 92). The locals
  \<open>prev_test_accuracy\<close> and \<open>prev_ref_accuracy\<close> come in and go out as a pair. The numbers given
  to the progress bar are recorded before they are formatted.
\<close>

definition train_round ::
  "('c, 'r, 't, 'w) collaborators \<Rightarrow> int \<Rightarrow> npfloat \<times> npfloat \<Rightarrow>
   ('c, 'r, 't) trainer \<times> ('c, 't, 'w) outside \<Rightarrow>
   error + ((npfloat \<times> npfloat) \<times> ('c, 'r, 't) trainer \<times> ('c, 't, 'w) outside)" where
  "train_round env e prev s =
     (case s of (tr, out) \<Rightarrow>
        bind_err
          (global_epoch env e
             (tr\<lparr>trust_weights_round := (trust_weights_round tr)(e \<mapsto> WeightList []),
                 soft_decisions := soft_decisions tr @ [[]],
                 train_accuracies := train_accuracies tr @ [[]],
                 test_accuracies := test_accuracies tr @ [[]],
                 ref_accuracies := ref_accuracies tr @ [[]]\<rparr>, out))
          (\<lambda>(tr1, out1).
        bind_err (consolidate env e tr1) (\<lambda>tr2.
        bind_err (py_getitem (test_accuracies tr2) e) (\<lambda>tests.
        bind_err (py_getitem (ref_accuracies tr2) e) (\<lambda>refs.
          let test_accuracy = np_mean tests;
              ref_accuracy = np_mean refs;
              prev_test_accuracy = (if e = 0 then test_accuracy else fst prev);
              prev_ref_accuracy = (if e = 0 then ref_accuracy else snd prev);
              out2 = record_report e
                       (SetDescription test_accuracy (fsub test_accuracy prev_test_accuracy)
                          ref_accuracy (fsub ref_accuracy prev_ref_accuracy)) out1;
              out3 = record_report e (WandbLogGlobal test_accuracy ref_accuracy) out2
          in
        bind_err (py_getitem (train_accuracies tr2) e) (\<lambda>trains.
          Inr ((test_accuracy, ref_accuracy), tr2,
               record_report e (WandbLogClients e trains tests refs) out3)))))))"

fun train_loop ::
  "('c, 'r, 't, 'w) collaborators \<Rightarrow> int list \<Rightarrow> npfloat \<times> npfloat \<Rightarrow>
   ('c, 'r, 't) trainer \<times> ('c, 't, 'w) outside \<Rightarrow>
   error + ((npfloat \<times> npfloat) \<times> ('c, 'r, 't) trainer \<times> ('c, 't, 'w) outside)" where
  "train_loop env [] prev s = Inr (prev, s)"
| "train_loop env (e # es) prev s =
     bind_err (train_round env e prev s) (\<lambda>(prev', s'). train_loop env es prev' s')"

text \<open>\<open>Trainer.train\<close>: \<open>range(global_epochs)\<close> is empty when \<open>global_epochs\<close> is not positive.\<close>

definition train ::
  "('c, 'r, 't, 'w) collaborators \<Rightarrow> int \<Rightarrow>
   ('c, 'r, 't) trainer \<times> ('c, 't, 'w) outside \<Rightarrow>
   error + (((int \<rightharpoonup> 't trust_weights) \<times> real list list \<times> real list list) \<times>
            ('c, 'r, 't) trainer \<times> ('c, 't, 'w) outside)" where
  "train env global_epochs s =
     bind_err (train_loop env (map int [0..<nat global_epochs]) (Num 0, Num 0) s)
       (\<lambda>(prev, tr, out).
          Inr ((trust_weights_round tr, test_accuracies tr, ref_accuracies tr), tr, out))"

text \<open>Constructing a trainer and calling \<open>train\<close> on it once, nothing recorded before.\<close>

definition fresh_run ::
  "('c, 'r, 't, 'w) collaborators \<Rightarrow> (int \<times> 'c) list \<Rightarrow> 'r \<Rightarrow> int list \<Rightarrow> int \<Rightarrow> int \<Rightarrow>
   metric_name \<Rightarrow> int \<Rightarrow> 'w \<Rightarrow>
   error + (((int \<rightharpoonup> 't trust_weights) \<times> real list list \<times> real list list) \<times>
            ('c, 'r, 't) trainer \<times> ('c, 't, 'w) outside)" where
  "fresh_run env cl rl css pr nle m global_epochs w =
     bind_err (init env cl rl css pr nle m) (\<lambda>tr.
       train env global_epochs (tr, \<lparr>world = w, calls = [], reports = []\<rparr>))"

definition calls_in :: "int \<Rightarrow> (int \<times> 'a) list \<Rightarrow> 'a list" where
  "calls_in e cs = map snd (filter (\<lambda>x. fst x = e) cs)"

definition select :: "('a \<Rightarrow> 'b list) \<Rightarrow> int \<Rightarrow> (int \<times> 'a) list \<Rightarrow> 'b list" where
  "select f e cs = concat (map f (calls_in e cs))"

fun calc_client :: "('c, 't) call \<Rightarrow> 'c list" where
  "calc_client (CalculateSoftDecisionTarget c ep prior tgt tw) = [c]"
| "calc_client _ = []"

fun calc_epoch :: "('c, 't) call \<Rightarrow> int list" where
  "calc_epoch (CalculateSoftDecisionTarget c ep prior tgt tw) = [ep]"
| "calc_epoch _ = []"

fun calc_prior :: "('c, 't) call \<Rightarrow> 't list list" where
  "calc_prior (CalculateSoftDecisionTarget c ep prior tgt tw) = [prior]"
| "calc_prior _ = []"

fun calc_target :: "('c, 't) call \<Rightarrow> 't option list" where
  "calc_target (CalculateSoftDecisionTarget c ep prior tgt tw) = [tgt]"
| "calc_target _ = []"

fun calc_weight :: "('c, 't) call \<Rightarrow> 't list" where
  "calc_weight (CalculateSoftDecisionTarget c ep prior tgt tw) = [tw]"
| "calc_weight _ = []"

fun train_call :: "('c, 't) call \<Rightarrow> ('c \<times> 't option) list" where
  "train_call (Train c tgt) = [(c, tgt)]"
| "train_call _ = []"

fun infer_client :: "('c, 't) call \<Rightarrow> 'c list" where
  "infer_client (InferOnRefdata c sd ry) = [c]"
| "infer_client _ = []"

fun infer_soft_decision :: "('c, 't) call \<Rightarrow> 't list" where
  "infer_soft_decision (InferOnRefdata c sd ry) = [sd]"
| "infer_soft_decision _ = []"

definition earlier :: "'a list \<Rightarrow> 'a list list" where
  "earlier xs = map (\<lambda>k. take k xs) [0..<length xs]"

definition round_lengths :: "nat \<Rightarrow> ('c, 'r, 't) trainer \<Rightarrow> bool" where
  "round_lengths k tr \<longleftrightarrow>
     length (soft_decisions tr) = k \<and> length (train_accuracies tr) = k \<and>
     length (test_accuracies tr) = k \<and> length (ref_accuracies tr) = k"

definition round_state ::
  "nat \<Rightarrow> (int \<times> 'c) list \<Rightarrow> ('c, 'r, 't) trainer \<Rightarrow> ('c, 't, 'w) outside \<Rightarrow> bool" where
  "round_state e dn tr out \<longleftrightarrow>
     select infer_client (int e) (calls out) = map snd dn \<and>
     select infer_soft_decision (int e) (calls out) = soft_decisions tr ! e \<and>
     length (soft_decisions tr ! e) = length dn \<and>
     length (train_accuracies tr ! e) = length dn \<and>
     length (test_accuracies tr ! e) = length dn \<and>
     length (ref_accuracies tr ! e) = length dn"

definition expected_priors :: "nat \<Rightarrow> nat \<Rightarrow> 'a list list \<Rightarrow> 'a list list" where
  "expected_priors e n sds =
     (if e = 0 then earlier (sds ! 0) else replicate n (sds ! (e - 1)))"

definition round_calls ::
  "nat \<Rightarrow> (int \<times> 'c) list \<Rightarrow> ('c, 'r, 't) trainer \<Rightarrow> ('c, 't, 'w) outside \<Rightarrow> bool" where
  "round_calls e dn tr out \<longleftrightarrow>
     (if int e < pretraining_rounds tr then
        select calc_client (int e) (calls out) = [] \<and>
        select calc_weight (int e) (calls out) = [] \<and>
        select train_call (int e) (calls out) =
          concat (map (\<lambda>ic. replicate (nat (num_local_epochs tr)) (snd ic, None)) dn)
      else
        select calc_client (int e) (calls out) = map snd dn \<and>
        select calc_epoch (int e) (calls out) = replicate (length dn) (int e) \<and>
        select calc_prior (int e) (calls out) =
          expected_priors e (length dn) (soft_decisions tr) \<and>
        length (select calc_target (int e) (calls out)) = length dn \<and>
        length (select calc_weight (int e) (calls out)) = length dn \<and>
        select train_call (int e) (calls out) =
          concat (map2 (\<lambda>ic tgt. replicate (nat (num_local_epochs tr)) (snd ic, tgt)) dn
                    (select calc_target (int e) (calls out))))"

definition slot_open ::
  "nat \<Rightarrow> ('c, 'r, 't) trainer \<Rightarrow> ('c, 't, 'w) outside \<Rightarrow> bool" where
  "slot_open e tr out \<longleftrightarrow>
     trust_weights_round tr (int e) =
       Some (WeightList (select calc_weight (int e) (calls out)))"

definition mid_state ::
  "nat \<Rightarrow> (int \<times> 'c) list \<Rightarrow> ('c, 'r, 't) trainer \<Rightarrow> ('c, 't, 'w) outside \<Rightarrow> bool" where
  "mid_state e dn tr out \<longleftrightarrow>
     round_lengths (Suc e) tr \<and> round_state e dn tr out \<and> round_calls e dn tr out \<and>
     slot_open e tr out"

definition same_config :: "('c, 'r, 't) trainer \<Rightarrow> ('c, 'r, 't) trainer \<Rightarrow> bool" where
  "same_config tr tr' \<longleftrightarrow>
     clients tr' = clients tr \<and> ref_loader tr' = ref_loader tr \<and>
     clients_sample_size tr' = clients_sample_size tr \<and>
     pretraining_rounds tr' = pretraining_rounds tr \<and>
     num_local_epochs tr' = num_local_epochs tr \<and>
     metric_name tr' = metric_name tr \<and> metric tr' = metric tr"

definition frame ::
  "nat \<Rightarrow> ('c, 'r, 't) trainer \<Rightarrow> ('c, 't, 'w) outside \<Rightarrow>
   ('c, 'r, 't) trainer \<Rightarrow> ('c, 't, 'w) outside \<Rightarrow> bool" where
  "frame e tr out tr' out' \<longleftrightarrow>
     same_config tr tr' \<and>
     take e (soft_decisions tr') = take e (soft_decisions tr) \<and>
     take e (train_accuracies tr') = take e (train_accuracies tr) \<and>
     take e (test_accuracies tr') = take e (test_accuracies tr) \<and>
     take e (ref_accuracies tr') = take e (ref_accuracies tr) \<and>
     (\<forall>r. r \<noteq> int e \<longrightarrow> trust_weights_round tr' r = trust_weights_round tr r) \<and>
     (\<exists>evs. calls out' = calls out @ map (Pair (int e)) evs) \<and>
     (\<exists>rs. reports out' = reports out @ map (Pair (int e)) rs)"

definition expected_reports :: "nat \<Rightarrow> ('c, 'r, 't) trainer \<Rightarrow> report list" where
  "expected_reports e tr =
     (let test_accuracy = np_mean (test_accuracies tr ! e);
          ref_accuracy = np_mean (ref_accuracies tr ! e);
          prev_test_accuracy =
            (if e = 0 then test_accuracy else np_mean (test_accuracies tr ! (e - 1)));
          prev_ref_accuracy =
            (if e = 0 then ref_accuracy else np_mean (ref_accuracies tr ! (e - 1)))
      in [SetDescription test_accuracy (fsub test_accuracy prev_test_accuracy)
            ref_accuracy (fsub ref_accuracy prev_ref_accuracy),
          WandbLogGlobal test_accuracy ref_accuracy,
          WandbLogClients (int e) (train_accuracies tr ! e) (test_accuracies tr ! e)
            (ref_accuracies tr ! e)])"

definition slot_closed ::
  "('c, 'r, 't, 'w) collaborators \<Rightarrow> nat \<Rightarrow> ('c, 'r, 't) trainer \<Rightarrow> ('c, 't, 'w) outside \<Rightarrow> bool"
  where
  "slot_closed env e tr out \<longleftrightarrow>
     (let ws = select calc_weight (int e) (calls out) in
      if ws = [] then trust_weights_round tr (int e) = Some (WeightList [])
      else \<exists>t. torch_stack env ws = Inr t \<and>
               trust_weights_round tr (int e) = Some (WeightTensor t))"

definition round_done ::
  "('c, 'r, 't, 'w) collaborators \<Rightarrow> nat \<Rightarrow> ('c, 'r, 't) trainer \<Rightarrow> ('c, 't, 'w) outside \<Rightarrow> bool"
  where
  "round_done env e tr out \<longleftrightarrow>
     round_state e (clients tr) tr out \<and> round_calls e (clients tr) tr out \<and>
     slot_closed env e tr out \<and>
     calls_in (int e) (reports out) = expected_reports e tr"

definition completed ::
  "('c, 'r, 't, 'w) collaborators \<Rightarrow> nat \<Rightarrow> npfloat \<times> npfloat \<Rightarrow> ('c, 'r, 't) trainer \<Rightarrow>
   ('c, 't, 'w) outside \<Rightarrow> bool" where
  "completed env k prev tr out \<longleftrightarrow>
     round_lengths k tr \<and>
     (\<forall>e<k. round_done env e tr out) \<and>
     (\<forall>x\<in>set (calls out). 0 \<le> fst x \<and> fst x < int k) \<and>
     (\<forall>x\<in>set (reports out). 0 \<le> fst x \<and> fst x < int k) \<and>
     (\<forall>r. int k \<le> r \<longrightarrow> trust_weights_round tr r = None) \<and>
     (0 < k \<longrightarrow> prev = (np_mean (test_accuracies tr ! (k - 1)),
                        np_mean (ref_accuracies tr ! (k - 1))))"

section \<open>Construction\<close>

lemma bind_err_Inr [simp]: "bind_err (Inr v) f = f v"
  by (simp add: bind_err_def)

lemma bind_err_Inl [simp]: "bind_err (Inl x) f = Inl x"
  by (simp add: bind_err_def)

lemma bind_err_eq_Inr: "bind_err m f = Inr y \<longleftrightarrow> (\<exists>v. m = Inr v \<and> f v = Inr y)"
  by (cases m) simp_all

text \<open>
  C6. Constructing a trainer with \<open>MetricName.acc\<close> or \<open>MetricName.bacc\<close> succeeds and
  stores \<open>accuracy_score\<close> or \<open>balanced_accuracy_score\<close> as the scoring function, with empty
  histories. Constructing it with any other value raises \<open>UnknownNameCustomEnumException\<close>
  in the constructor: there is no trainer to call \<open>train\<close> on, so no round runs, whatever
  the number of rounds asked for.
\<close>

theorem init_resolves_metric_or_raises:
  "(\<exists>tr. init env cl rl css pr nle MetricName_acc = Inr tr \<and> metric tr = accuracy_score env \<and>
         metric_name tr = MetricName_acc \<and> soft_decisions tr = [] \<and>
         train_accuracies tr = [] \<and> test_accuracies tr = [] \<and> ref_accuracies tr = [] \<and>
         trust_weights_round tr = Map.empty) \<and>
   (\<exists>tr. init env cl rl css pr nle MetricName_bacc = Inr tr \<and>
         metric tr = balanced_accuracy_score env \<and>
         metric_name tr = MetricName_bacc \<and> soft_decisions tr = [] \<and>
         train_accuracies tr = [] \<and> test_accuracies tr = [] \<and> ref_accuracies tr = [] \<and>
         trust_weights_round tr = Map.empty) \<and>
   init env cl rl css pr nle (MetricName_other x) =
     Inl (UnknownNameCustomEnumException (MetricName_other x)) \<and>
   fresh_run env cl rl css pr nle (MetricName_other x) global_epochs w =
     Inl (UnknownNameCustomEnumException (MetricName_other x))"
  by (simp add: init_def fresh_run_def)

lemma py_index_nonneg: "i < len \<Longrightarrow> py_index len (int i) = Inr i"
  by (simp add: py_index_def)

lemma py_index_minus_one: "py_index (Suc 0) (- 1) = Inr 0"
  by (simp add: py_index_def)

lemma py_getitem_nonneg: "i < length xs \<Longrightarrow> py_getitem xs (int i) = Inr (xs ! i)"
  by (simp add: py_getitem_def py_index_nonneg)

lemma py_append_at_nonneg:
  "i < length xss \<Longrightarrow> py_append_at xss (int i) v = Inr (xss[i := xss ! i @ [v]])"
  by (simp add: py_append_at_def py_index_nonneg)

lemma local_epochs_Inr:
  "local_epochs env tr e c tgt k out = Inr out' \<Longrightarrow>
   calls out' = calls out @ replicate k (e, Train c tgt) \<and> reports out' = reports out"
proof (induction k arbitrary: out)
  case 0
  then show ?case by simp
next
  case (Suc k)
  from Suc.prems obtain out1 where
    a: "local_epoch env tr e c tgt out = Inr out1" and
    b: "local_epochs env tr e c tgt k out1 = Inr out'"
    by (auto simp: bind_err_eq_Inr)
  from a have "calls out1 = calls out @ [(e, Train c tgt)] \<and> reports out1 = reports out"
    by (auto simp: local_epoch_def bind_err_eq_Inr record_call_def)
  with Suc.IH [OF b] show ?case
    by (simp add: replicate_app_Cons_same)
qed

lemma phase_gate_pretraining:
  "e < pretraining_rounds tr \<Longrightarrow> phase_gate env e c (tr, out) = Inr (None, tr, out)"
  by (simp add: phase_gate_def)

lemma append_trust_weight_Inr:
  "append_trust_weight d e tw = Inr d' \<Longrightarrow>
   \<exists>ws. d e = Some (WeightList ws) \<and> d' = d(e \<mapsto> WeightList (ws @ [tw]))"
  by (auto simp: append_trust_weight_def split: option.splits trust_weights.splits)

lemma phase_gate_distill_Inr:
  assumes "\<not> e < pretraining_rounds tr"
    and "phase_gate env e c (tr, out) = Inr (tgt, tr', out')"
  shows "\<exists>prior tw w ws.
     py_getitem (soft_decisions tr) (e - 1) = Inr prior \<and>
     calculate_soft_decision_target env c e prior (world out) = Inr ((tgt, tw), w) \<and>
     trust_weights_round tr e = Some (WeightList ws) \<and>
     tr' = tr\<lparr>trust_weights_round := (trust_weights_round tr)(e \<mapsto> WeightList (ws @ [tw]))\<rparr> \<and>
     out' = out\<lparr>world := w,
                calls := calls out @ [(e, CalculateSoftDecisionTarget c e prior tgt tw)]\<rparr>"
proof -
  from assms obtain prior t tw w d where
    a: "py_getitem (soft_decisions tr) (e - 1) = Inr prior" and
    b: "calculate_soft_decision_target env c e prior (world out) = Inr ((t, tw), w)" and
    c: "append_trust_weight (trust_weights_round tr) e tw = Inr d" and
    d: "(tgt, tr', out') =
        (t, tr\<lparr>trust_weights_round := d\<rparr>,
         record_call e (CalculateSoftDecisionTarget c e prior t tw) w out)"
    by (auto simp: phase_gate_def bind_err_eq_Inr)
  from append_trust_weight_Inr [OF c] obtain ws where
    e: "trust_weights_round tr e = Some (WeightList ws)" and
    f: "d = (trust_weights_round tr)(e \<mapsto> WeightList (ws @ [tw]))"
    by blast
  from d have g: "t = tgt" "tr' = tr\<lparr>trust_weights_round := d\<rparr>"
    "out' = record_call e (CalculateSoftDecisionTarget c e prior t tw) w out"
    by simp_all
  show ?thesis
    using a b e f g by (simp add: record_call_def)
qed

lemma evaluate_Inr:
  "evaluate env e c (tr, out) = Inr (tr', out') \<Longrightarrow>
   \<exists>a1 sd ry a2 ra w tra sds tea rea.
     py_append_at (train_accuracies tr) e a1 = Inr tra \<and>
     py_append_at (soft_decisions tr) e sd = Inr sds \<and>
     py_append_at (test_accuracies tr) e a2 = Inr tea \<and>
     py_append_at (ref_accuracies tr) e ra = Inr rea \<and>
     tr' = tr\<lparr>soft_decisions := sds, train_accuracies := tra,
               test_accuracies := tea, ref_accuracies := rea\<rparr> \<and>
     out' = out\<lparr>world := w,
                calls := calls out @
                  [(e, Test c (metric_name tr) Mode_train a1),
                   (e, InferOnRefdata c sd ry),
                   (e, Test c (metric_name tr) Mode_test a2)]\<rparr>"
  apply (clarsimp simp: evaluate_def bind_err_eq_Inr)
  apply (intro exI conjI)
       apply assumption+
   apply (rule refl)+
  done

lemma earlier_Nil [simp]: "earlier [] = []"
  by (simp add: earlier_def)

lemma earlier_snoc: "earlier (xs @ [x]) = earlier xs @ [xs]"
  by (simp add: earlier_def)

lemma length_earlier [simp]: "length (earlier xs) = length xs"
  by (simp add: earlier_def)

lemma select_Nil [simp]: "select f e [] = []"
  by (simp add: select_def calls_in_def)

lemma select_append [simp]: "select f e (l1 @ l2) = select f e l1 @ select f e l2"
  by (simp add: select_def calls_in_def)

lemma select_Cons [simp]:
  "select f e ((r, ev) # l) = (if r = e then f ev @ select f e l else select f e l)"
  by (simp add: select_def calls_in_def)

lemma select_map_Pair_other: "r \<noteq> e \<Longrightarrow> select f e (map (Pair r) evs) = []"
  by (induction evs) simp_all

lemma select_map_Pair_same: "select f e (map (Pair e) evs) = concat (map f evs)"
  by (induction evs) simp_all

lemma concat_replicate_Nil [simp]: "concat (replicate k []) = []"
  by (induction k) simp_all

lemma concat_replicate_single [simp]: "concat (replicate k [x]) = replicate k x"
  by (induction k) simp_all

lemma client_turn_pretraining_Inr:
  assumes "e < pretraining_rounds tr"
    and "client_turn env e (i, c) (tr, out) = Inr (tr', out')"
  shows "\<exists>a1 sd ry a2 ra tra sds tea rea.
     py_append_at (train_accuracies tr) e a1 = Inr tra \<and>
     py_append_at (soft_decisions tr) e sd = Inr sds \<and>
     py_append_at (test_accuracies tr) e a2 = Inr tea \<and>
     py_append_at (ref_accuracies tr) e ra = Inr rea \<and>
     tr' = tr\<lparr>soft_decisions := sds, train_accuracies := tra,
               test_accuracies := tea, ref_accuracies := rea\<rparr> \<and>
     calls out' = calls out @ map (Pair e)
       (replicate (nat (num_local_epochs tr)) (Train c None) @
        [Test c (metric_name tr) Mode_train a1, InferOnRefdata c sd ry,
         Test c (metric_name tr) Mode_test a2]) \<and>
     reports out' = reports out"
proof -
  from assms obtain out1 where
    a: "local_epochs env tr e c None (nat (num_local_epochs tr)) out = Inr out1" and
    b: "evaluate env e c (tr, out1) = Inr (tr', out')"
    by (auto simp: client_turn_def phase_gate_pretraining bind_err_eq_Inr)
  note c = local_epochs_Inr [OF a]
  from evaluate_Inr [OF b] obtain a1 sd ry a2 ra w tra sds tea rea where d:
    "py_append_at (train_accuracies tr) e a1 = Inr tra"
    "py_append_at (soft_decisions tr) e sd = Inr sds"
    "py_append_at (test_accuracies tr) e a2 = Inr tea"
    "py_append_at (ref_accuracies tr) e ra = Inr rea"
    "tr' = tr\<lparr>soft_decisions := sds, train_accuracies := tra,
               test_accuracies := tea, ref_accuracies := rea\<rparr>"
    "out' = out1\<lparr>world := w,
                calls := calls out1 @
                  [(e, Test c (metric_name tr) Mode_train a1),
                   (e, InferOnRefdata c sd ry),
                   (e, Test c (metric_name tr) Mode_test a2)]\<rparr>"
    by blast
  from c d(6) have
    "calls out' = calls out @ map (Pair e)
       (replicate (nat (num_local_epochs tr)) (Train c None) @
        [Test c (metric_name tr) Mode_train a1, InferOnRefdata c sd ry,
         Test c (metric_name tr) Mode_test a2])"
    "reports out' = reports out"
    by (simp_all add: map_replicate)
  with d(1-5) show ?thesis by blast
qed

lemma client_turn_distill_Inr:
  assumes "\<not> e < pretraining_rounds tr"
    and "client_turn env e (i, c) (tr, out) = Inr (tr', out')"
  shows "\<exists>prior tgt tw ws a1 sd ry a2 ra tra sds tea rea.
     py_getitem (soft_decisions tr) (e - 1) = Inr prior \<and>
     trust_weights_round tr e = Some (WeightList ws) \<and>
     py_append_at (train_accuracies tr) e a1 = Inr tra \<and>
     py_append_at (soft_decisions tr) e sd = Inr sds \<and>
     py_append_at (test_accuracies tr) e a2 = Inr tea \<and>
     py_append_at (ref_accuracies tr) e ra = Inr rea \<and>
     tr' = tr\<lparr>trust_weights_round := (trust_weights_round tr)(e \<mapsto> WeightList (ws @ [tw])),
               soft_decisions := sds, train_accuracies := tra,
               test_accuracies := tea, ref_accuracies := rea\<rparr> \<and>
     calls out' = calls out @ map (Pair e)
       (CalculateSoftDecisionTarget c e prior tgt tw #
        replicate (nat (num_local_epochs tr)) (Train c tgt) @
        [Test c (metric_name tr) Mode_train a1, InferOnRefdata c sd ry,
         Test c (metric_name tr) Mode_test a2]) \<and>
     reports out' = reports out"
proof -
  from assms(2) obtain tgt tr0 out0 out1 where
    g: "phase_gate env e c (tr, out) = Inr (tgt, tr0, out0)" and
    a: "local_epochs env tr0 e c tgt (nat (num_local_epochs tr0)) out0 = Inr out1" and
    b: "evaluate env e c (tr0, out1) = Inr (tr', out')"
    by (auto simp: client_turn_def bind_err_eq_Inr)
  from phase_gate_distill_Inr [OF assms(1) g] obtain prior tw w0 ws where h:
    "py_getitem (soft_decisions tr) (e - 1) = Inr prior"
    "trust_weights_round tr e = Some (WeightList ws)"
    "tr0 = tr\<lparr>trust_weights_round := (trust_weights_round tr)(e \<mapsto> WeightList (ws @ [tw]))\<rparr>"
    "out0 = out\<lparr>world := w0,
                calls := calls out @ [(e, CalculateSoftDecisionTarget c e prior tgt tw)]\<rparr>"
    by blast
  note c = local_epochs_Inr [OF a]
  from evaluate_Inr [OF b] obtain a1 sd ry a2 ra w tra sds tea rea where d:
    "py_append_at (train_accuracies tr0) e a1 = Inr tra"
    "py_append_at (soft_decisions tr0) e sd = Inr sds"
    "py_append_at (test_accuracies tr0) e a2 = Inr tea"
    "py_append_at (ref_accuracies tr0) e ra = Inr rea"
    "tr' = tr0\<lparr>soft_decisions := sds, train_accuracies := tra,
               test_accuracies := tea, ref_accuracies := rea\<rparr>"
    "out' = out1\<lparr>world := w,
                calls := calls out1 @
                  [(e, Test c (metric_name tr0) Mode_train a1),
                   (e, InferOnRefdata c sd ry),
                   (e, Test c (metric_name tr0) Mode_test a2)]\<rparr>"
    by blast
  from c d(6) h(3,4) have
    "calls out' = calls out @ map (Pair e)
       (CalculateSoftDecisionTarget c e prior tgt tw #
        replicate (nat (num_local_epochs tr)) (Train c tgt) @
        [Test c (metric_name tr) Mode_train a1, InferOnRefdata c sd ry,
         Test c (metric_name tr) Mode_test a2])"
    "reports out' = reports out"
    by (simp_all add: map_replicate)
  moreover from d(1-5) h(3) have
    "py_append_at (train_accuracies tr) e a1 = Inr tra"
    "py_append_at (soft_decisions tr) e sd = Inr sds"
    "py_append_at (test_accuracies tr) e a2 = Inr tea"
    "py_append_at (ref_accuracies tr) e ra = Inr rea"
    "tr' = tr\<lparr>trust_weights_round := (trust_weights_round tr)(e \<mapsto> WeightList (ws @ [tw])),
               soft_decisions := sds, train_accuracies := tra,
               test_accuracies := tea, ref_accuracies := rea\<rparr>"
    by simp_all
  ultimately show ?thesis using h(1,2) by blast
qed

lemma py_append_at_last:
  "length xss = Suc e \<Longrightarrow> py_append_at xss (int e) v = Inr yss \<Longrightarrow>
   yss = xss[e := xss ! e @ [v]]"
  by (simp add: py_append_at_nonneg)

lemma py_getitem_previous:
  assumes "length xs = Suc e" and "py_getitem xs (int e - 1) = Inr p"
  shows "p = (if e = 0 then xs ! 0 else xs ! (e - 1))"
proof (cases e)
  case 0
  with assms show ?thesis
    by (simp add: py_getitem_def py_index_def)
next
  case (Suc k)
  with assms(1) have "py_getitem xs (int k) = Inr (xs ! k)"
    by (simp add: py_getitem_nonneg)
  with assms(2) Suc show ?thesis by simp
qed

lemma frame_refl: "frame e tr out tr out"
  by (simp add: frame_def same_config_def)

lemma frame_trans:
  assumes "frame e tr out tr1 out1" and "frame e tr1 out1 tr2 out2"
  shows "frame e tr out tr2 out2"
proof -
  from assms obtain evs evs' rs rs' where
    "calls out1 = calls out @ map (Pair (int e)) evs"
    "calls out2 = calls out1 @ map (Pair (int e)) evs'"
    "reports out1 = reports out @ map (Pair (int e)) rs"
    "reports out2 = reports out1 @ map (Pair (int e)) rs'"
    unfolding frame_def by blast
  then have "calls out2 = calls out @ map (Pair (int e)) (evs @ evs')"
    "reports out2 = reports out @ map (Pair (int e)) (rs @ rs')"
    by simp_all
  then have "\<exists>evs. calls out2 = calls out @ map (Pair (int e)) evs"
    "\<exists>rs. reports out2 = reports out @ map (Pair (int e)) rs"
    by blast+
  with assms show ?thesis
    unfolding frame_def same_config_def by simp
qed

lemma select_replicate [simp]:
  "select f e (replicate k (r, ev)) = (if r = e then concat (replicate k (f ev)) else [])"
  by (induction k) auto

lemma client_turn_mid:
  assumes st: "mid_state e dn tr out"
    and turn: "client_turn env (int e) (i, c) (tr, out) = Inr (tr', out')"
  shows "mid_state e (dn @ [(i, c)]) tr' out' \<and> frame e tr out tr' out' \<and>
         reports out' = reports out"
proof (cases "int e < pretraining_rounds tr")
  case True
  from client_turn_pretraining_Inr [OF True turn] obtain a1 sd ry a2 ra tra sds tea rea where d:
    "py_append_at (train_accuracies tr) (int e) a1 = Inr tra"
    "py_append_at (soft_decisions tr) (int e) sd = Inr sds"
    "py_append_at (test_accuracies tr) (int e) a2 = Inr tea"
    "py_append_at (ref_accuracies tr) (int e) ra = Inr rea"
    "tr' = tr\<lparr>soft_decisions := sds, train_accuracies := tra,
               test_accuracies := tea, ref_accuracies := rea\<rparr>"
    "calls out' = calls out @ map (Pair (int e))
       (replicate (nat (num_local_epochs tr)) (Train c None) @
        [Test c (metric_name tr) Mode_train a1, InferOnRefdata c sd ry,
         Test c (metric_name tr) Mode_test a2])"
    "reports out' = reports out"
    by blast
  from st have len: "length (soft_decisions tr) = Suc e" "length (train_accuracies tr) = Suc e"
    "length (test_accuracies tr) = Suc e" "length (ref_accuracies tr) = Suc e"
    by (simp_all add: mid_state_def round_lengths_def)
  note upd = py_append_at_last [OF len(2) d(1)] py_append_at_last [OF len(1) d(2)]
    py_append_at_last [OF len(3) d(3)] py_append_at_last [OF len(4) d(4)]
  have 1: "mid_state e (dn @ [(i, c)]) tr' out'"
    using st True
    by (simp add: mid_state_def round_lengths_def round_state_def round_calls_def
        slot_open_def d(5,6) upd)
  have "\<exists>evs. calls out' = calls out @ map (Pair (int e)) evs"
    using d(6) by blast
  then have 3: "frame e tr out tr' out'"
    unfolding frame_def same_config_def using d(7) by (simp add: d(5) upd)
  from 1 3 d(7) show ?thesis by blast
next
  case False
  from client_turn_distill_Inr [OF False turn]
  obtain prior tgt tw ws a1 sd ry a2 ra tra sds tea rea where d:
    "py_getitem (soft_decisions tr) (int e - 1) = Inr prior"
    "trust_weights_round tr (int e) = Some (WeightList ws)"
    "py_append_at (train_accuracies tr) (int e) a1 = Inr tra"
    "py_append_at (soft_decisions tr) (int e) sd = Inr sds"
    "py_append_at (test_accuracies tr) (int e) a2 = Inr tea"
    "py_append_at (ref_accuracies tr) (int e) ra = Inr rea"
    "tr' = tr\<lparr>trust_weights_round :=
                 (trust_weights_round tr)(int e \<mapsto> WeightList (ws @ [tw])),
               soft_decisions := sds, train_accuracies := tra,
               test_accuracies := tea, ref_accuracies := rea\<rparr>"
    "calls out' = calls out @ map (Pair (int e))
       (CalculateSoftDecisionTarget c (int e) prior tgt tw #
        replicate (nat (num_local_epochs tr)) (Train c tgt) @
        [Test c (metric_name tr) Mode_train a1, InferOnRefdata c sd ry,
         Test c (metric_name tr) Mode_test a2])"
    "reports out' = reports out"
    by blast
  from st have len: "length (soft_decisions tr) = Suc e" "length (train_accuracies tr) = Suc e"
    "length (test_accuracies tr) = Suc e" "length (ref_accuracies tr) = Suc e"
    by (simp_all add: mid_state_def round_lengths_def)
  note upd = py_append_at_last [OF len(2) d(3)] py_append_at_last [OF len(1) d(4)]
    py_append_at_last [OF len(3) d(5)] py_append_at_last [OF len(4) d(6)]
  note pr = py_getitem_previous [OF len(1) d(1)]
  from st d(2) have ws: "ws = select calc_weight (int e) (calls out)"
    by (simp add: mid_state_def slot_open_def)
  have 1: "mid_state e (dn @ [(i, c)]) tr' out'"
    using st False
    by (simp add: mid_state_def round_lengths_def round_state_def round_calls_def
        slot_open_def expected_priors_def d(7,8) upd pr ws earlier_snoc
        replicate_append_same)
  have "\<exists>evs. calls out' = calls out @ map (Pair (int e)) evs"
    using d(8) by blast
  then have 3: "frame e tr out tr' out'"
    unfolding frame_def same_config_def using d(9) by (simp add: d(7) upd)
  from 1 3 d(9) show ?thesis by blast
qed

lemma global_epoch_loop_mid:
  assumes "mid_state e dn tr out"
    and "global_epoch_loop env (int e) todo (tr, out) = Inr (tr', out')"
  shows "mid_state e (dn @ todo) tr' out' \<and> frame e tr out tr' out' \<and>
         reports out' = reports out"
  using assms
proof (induction todo arbitrary: dn tr out)
  case Nil
  then show ?case by (simp add: frame_refl)
next
  case (Cons ic todo)
  obtain i c where ic: "ic = (i, c)" by (cases ic)
  from Cons.prems(2) obtain tr1 out1 where
    a: "client_turn env (int e) (i, c) (tr, out) = Inr (tr1, out1)" and
    b: "global_epoch_loop env (int e) todo (tr1, out1) = Inr (tr', out')"
    by (auto simp: bind_err_eq_Inr ic)
  from client_turn_mid [OF Cons.prems(1) a] have
    c: "mid_state e (dn @ [(i, c)]) tr1 out1" "frame e tr out tr1 out1"
      "reports out1 = reports out"
    by simp_all
  from Cons.IH [OF c(1) b] c(2,3) show ?case
    by (auto simp: ic intro: frame_trans)
qed

lemma calls_in_append [simp]: "calls_in e (l1 @ l2) = calls_in e l1 @ calls_in e l2"
  by (simp add: calls_in_def)

lemma calls_in_map_Pair_same [simp]: "calls_in e (map (Pair e) xs) = xs"
  by (induction xs) (simp_all add: calls_in_def)

lemma calls_in_map_Pair_other: "r \<noteq> e \<Longrightarrow> calls_in e (map (Pair r) xs) = []"
  by (induction xs) (simp_all add: calls_in_def)

lemma calls_in_none: "\<forall>x\<in>set l. fst x < e \<Longrightarrow> calls_in e l = []"
  by (induction l) (auto simp: calls_in_def)

lemma select_none: "\<forall>x\<in>set l. fst x < e \<Longrightarrow> select f e l = []"
  by (simp add: select_def calls_in_none)

lemma nth_of_take_eq: "take e xs' = take e xs \<Longrightarrow> r < e \<Longrightarrow> xs' ! r = xs ! r"
  by (metis nth_take)

lemma consolidate_Inr:
  assumes "consolidate env e tr = Inr tr'"
  shows "\<exists>ws. trust_weights_round tr e = Some (WeightList ws) \<and>
     (if ws = [] then tr' = tr
      else \<exists>t. torch_stack env ws = Inr t \<and>
             tr' = tr\<lparr>trust_weights_round := (trust_weights_round tr)(e \<mapsto> WeightTensor t)\<rparr>)"
  using assms
  by (auto simp: consolidate_def bind_err_eq_Inr split: option.splits trust_weights.splits
      if_splits)

lemma train_round_Inr:
  assumes "train_round env e prev (tr, out) = Inr (prev', tr', out')"
  shows "\<exists>tr1 out1 tests refs trains.
     global_epoch env e
       (tr\<lparr>trust_weights_round := (trust_weights_round tr)(e \<mapsto> WeightList []),
           soft_decisions := soft_decisions tr @ [[]],
           train_accuracies := train_accuracies tr @ [[]],
           test_accuracies := test_accuracies tr @ [[]],
           ref_accuracies := ref_accuracies tr @ [[]]\<rparr>, out) = Inr (tr1, out1) \<and>
     consolidate env e tr1 = Inr tr' \<and>
     py_getitem (test_accuracies tr') e = Inr tests \<and>
     py_getitem (ref_accuracies tr') e = Inr refs \<and>
     py_getitem (train_accuracies tr') e = Inr trains \<and>
     prev' = (np_mean tests, np_mean refs) \<and>
     world out' = world out1 \<and> calls out' = calls out1 \<and>
     reports out' = reports out1 @ map (Pair e)
       [SetDescription (np_mean tests)
          (fsub (np_mean tests) (if e = 0 then np_mean tests else fst prev))
          (np_mean refs)
          (fsub (np_mean refs) (if e = 0 then np_mean refs else snd prev)),
        WandbLogGlobal (np_mean tests) (np_mean refs),
        WandbLogClients e trains tests refs]"
  using assms
  by (auto simp: train_round_def bind_err_eq_Inr Let_def record_report_def)

lemma frame_select:
  "frame k tr out tr' out' \<Longrightarrow> e \<noteq> int k \<Longrightarrow>
   select f e (calls out') = select f e (calls out)"
  by (auto simp: frame_def select_map_Pair_other)

lemma frame_reports:
  "frame k tr out tr' out' \<Longrightarrow> e \<noteq> int k \<Longrightarrow>
   calls_in e (reports out') = calls_in e (reports out)"
  by (auto simp: frame_def calls_in_map_Pair_other)

lemma frame_nth:
  assumes "frame k tr out tr' out'" and "e < k"
  shows "soft_decisions tr' ! e = soft_decisions tr ! e"
    and "train_accuracies tr' ! e = train_accuracies tr ! e"
    and "test_accuracies tr' ! e = test_accuracies tr ! e"
    and "ref_accuracies tr' ! e = ref_accuracies tr ! e"
    and "trust_weights_round tr' (int e) = trust_weights_round tr (int e)"
  using assms by (auto simp: frame_def intro: nth_of_take_eq)

lemma frame_config:
  assumes "frame k tr out tr' out'"
  shows "clients tr' = clients tr" and "pretraining_rounds tr' = pretraining_rounds tr"
    and "num_local_epochs tr' = num_local_epochs tr"
  using assms by (simp_all add: frame_def same_config_def)

lemma expected_priors_stable:
  assumes "take k xs' = take k xs" and "e < k"
  shows "expected_priors e n xs' = expected_priors e n xs"
proof (cases e)
  case 0
  with assms have "xs' ! 0 = xs ! 0" by (auto intro: nth_of_take_eq)
  with 0 show ?thesis by (simp add: expected_priors_def)
next
  case (Suc j)
  with assms have "xs' ! j = xs ! j" by (auto intro: nth_of_take_eq)
  with Suc show ?thesis by (simp add: expected_priors_def)
qed

lemma round_done_stable:
  assumes rd: "round_done env e tr out" and lt: "e < k"
    and fr: "frame k tr out tr' out'"
  shows "round_done env e tr' out'"
proof -
  from lt have ne: "int e \<noteq> int k" by simp
  note sel = frame_select [OF fr ne] frame_reports [OF fr ne]
  note nth = frame_nth [OF fr lt]
  note cfg = frame_config [OF fr]
  have prev: "e - 1 < k" using lt by simp
  note nth' = frame_nth(1,3,4) [OF fr prev]
  from fr have "take k (soft_decisions tr') = take k (soft_decisions tr)"
    by (simp add: frame_def)
  note pri = expected_priors_stable [OF this lt]
  from rd have 1: "round_state e (clients tr') tr' out'"
    unfolding round_done_def round_state_def by (simp add: sel nth cfg)
  from rd have "round_calls e (clients tr) tr out"
    by (simp add: round_done_def)
  then have 2: "round_calls e (clients tr') tr' out'"
    unfolding round_calls_def sel cfg pri .
  from rd have "slot_closed env e tr out"
    by (simp add: round_done_def)
  then have 3: "slot_closed env e tr' out'"
    unfolding slot_closed_def sel nth(5) .
  from rd have "calls_in (int e) (reports out) = expected_reports e tr"
    by (simp add: round_done_def)
  then have 4: "calls_in (int e) (reports out') = expected_reports e tr'"
    unfolding expected_reports_def sel nth nth' .
  from 1 2 3 4 show ?thesis by (simp add: round_done_def)
qed

lemma tags_below_append:
  "\<forall>x\<in>set l. 0 \<le> fst x \<and> fst x < int k \<Longrightarrow> l' = l @ map (Pair (int k)) evs \<Longrightarrow>
   \<forall>x\<in>set l'. 0 \<le> fst x \<and> fst x < int (Suc k)"
  by auto

lemma train_round_completed:
  assumes comp: "completed env k prev tr out"
    and run: "train_round env (int k) prev (tr, out) = Inr (prev', tr', out')"
  shows "completed env (Suc k) prev' tr' out' \<and> frame k tr out tr' out'"
proof -
  define tr0 where "tr0 =
    tr\<lparr>trust_weights_round := (trust_weights_round tr)(int k \<mapsto> WeightList []),
       soft_decisions := soft_decisions tr @ [[]],
       train_accuracies := train_accuracies tr @ [[]],
       test_accuracies := test_accuracies tr @ [[]],
       ref_accuracies := ref_accuracies tr @ [[]]\<rparr>"
  from train_round_Inr [OF run] obtain tr1 out1 tests refs trains where r:
    "global_epoch env (int k) (tr0, out) = Inr (tr1, out1)"
    "consolidate env (int k) tr1 = Inr tr'"
    "py_getitem (test_accuracies tr') (int k) = Inr tests"
    "py_getitem (ref_accuracies tr') (int k) = Inr refs"
    "py_getitem (train_accuracies tr') (int k) = Inr trains"
    "prev' = (np_mean tests, np_mean refs)"
    "calls out' = calls out1"
    "reports out' = reports out1 @ map (Pair (int k))
       [SetDescription (np_mean tests)
          (fsub (np_mean tests) (if int k = 0 then np_mean tests else fst prev))
          (np_mean refs)
          (fsub (np_mean refs) (if int k = 0 then np_mean refs else snd prev)),
        WandbLogGlobal (np_mean tests) (np_mean refs),
        WandbLogClients (int k) trains tests refs]"
    unfolding tr0_def by blast
  from comp have len: "length (soft_decisions tr) = k" "length (train_accuracies tr) = k"
    "length (test_accuracies tr) = k" "length (ref_accuracies tr) = k"
    and old: "\<And>e. e < k \<Longrightarrow> round_done env e tr out"
    and ctag: "\<forall>x\<in>set (calls out). 0 \<le> fst x \<and> fst x < int k"
    and rtag: "\<forall>x\<in>set (reports out). 0 \<le> fst x \<and> fst x < int k"
    and free: "\<And>r. int k \<le> r \<Longrightarrow> trust_weights_round tr r = None"
    and prv: "0 < k \<Longrightarrow> prev = (np_mean (test_accuracies tr ! (k - 1)),
                                  np_mean (ref_accuracies tr ! (k - 1)))"
    by (simp_all add: completed_def round_lengths_def)
  have sel0: "\<And>f. select f (int k) (calls out) = []"
    using ctag by (intro select_none) blast
  have rep0: "calls_in (int k) (reports out) = []"
    using rtag by (intro calls_in_none) blast
  have m0: "mid_state k [] tr0 out"
    unfolding mid_state_def round_lengths_def round_state_def round_calls_def slot_open_def
      expected_priors_def
    using len by (simp add: tr0_def sel0 nth_append)
  have "calls out = calls out @ map (Pair (int k)) []"
    "reports out = reports out @ map (Pair (int k)) []"
    by simp_all
  then have "\<exists>evs. calls out = calls out @ map (Pair (int k)) evs"
    "\<exists>rs. reports out = reports out @ map (Pair (int k)) rs"
    by blast+
  then have f0: "frame k tr out tr0 out"
    unfolding frame_def same_config_def using len by (simp add: tr0_def)
  from r(1) have loop:
    "global_epoch_loop env (int k) (clients tr) (tr0, out) = Inr (tr1, out1)"
    by (simp add: global_epoch_def tr0_def)
  from global_epoch_loop_mid [OF m0 loop] have
    m1: "mid_state k (clients tr) tr1 out1" and f1: "frame k tr0 out tr1 out1"
    and rep1: "reports out1 = reports out"
    by simp_all
  from m1 have slot1: "trust_weights_round tr1 (int k) =
      Some (WeightList (select calc_weight (int k) (calls out1)))"
    by (simp add: mid_state_def slot_open_def)
  from consolidate_Inr [OF r(2)] slot1 have cons:
    "if select calc_weight (int k) (calls out1) = [] then tr' = tr1
     else \<exists>t. torch_stack env (select calc_weight (int k) (calls out1)) = Inr t \<and>
            tr' = tr1\<lparr>trust_weights_round :=
                        (trust_weights_round tr1)(int k \<mapsto> WeightTensor t)\<rparr>"
    by auto
  then obtain d where d: "tr' = tr1\<lparr>trust_weights_round := d\<rparr>"
    "\<And>r. r \<noteq> int k \<Longrightarrow> d r = trust_weights_round tr1 r"
  proof (cases "select calc_weight (int k) (calls out1) = []")
    case True
    with cons have "tr' = tr1\<lparr>trust_weights_round := trust_weights_round tr1\<rparr>" by simp
    then show ?thesis using that by blast
  next
    case False
    with cons obtain t where
      "tr' = tr1\<lparr>trust_weights_round :=
                  (trust_weights_round tr1)(int k \<mapsto> WeightTensor t)\<rparr>"
      by auto
    then show ?thesis using that [of "(trust_weights_round tr1)(int k \<mapsto> WeightTensor t)"]
      by simp
  qed
  have "\<exists>evs. calls out' = calls out1 @ map (Pair (int k)) evs"
    using r(7) by (intro exI [of _ "[]"]) simp
  moreover have "\<exists>rs. reports out' = reports out1 @ map (Pair (int k)) rs"
    using r(8) by blast
  ultimately have f2: "frame k tr1 out1 tr' out'"
    unfolding frame_def same_config_def using d(2) by (simp add: d(1))
  have fr: "frame k tr out tr' out'"
    using f0 f1 f2 by (blast intro: frame_trans)
  have cfg: "clients tr' = clients tr"
    using frame_config(1) [OF fr] .
  from m1 have len1: "round_lengths (Suc k) tr'"
    by (simp add: mid_state_def round_lengths_def d(1))
  from m1 have rs: "round_state k (clients tr') tr' out'"
    unfolding cfg by (simp add: mid_state_def round_state_def d(1) r(7))
  from m1 have rc: "round_calls k (clients tr') tr' out'"
    unfolding cfg by (simp add: mid_state_def round_calls_def d(1) r(7))
  have sc: "slot_closed env k tr' out'"
  proof (cases "select calc_weight (int k) (calls out1) = []")
    case True
    with cons slot1 show ?thesis by (simp add: slot_closed_def r(7))
  next
    case False
    with cons show ?thesis by (auto simp: slot_closed_def r(7))
  qed
  from len1 have tests: "tests = test_accuracies tr' ! k" and refs: "refs = ref_accuracies tr' ! k"
    and trains: "trains = train_accuracies tr' ! k"
    using r(3,4,5) by (simp_all add: round_lengths_def py_getitem_nonneg)
  have prev_eq: "0 < k \<Longrightarrow> prev = (np_mean (test_accuracies tr' ! (k - 1)),
                                      np_mean (ref_accuracies tr' ! (k - 1)))"
  proof -
    assume pos: "0 < k"
    then have "k - 1 < k" by simp
    from frame_nth(3,4) [OF fr this] prv [OF pos] show ?thesis by simp
  qed
  have step: "calls_in (int k) (reports out') =
       [SetDescription (np_mean tests)
          (fsub (np_mean tests) (if int k = 0 then np_mean tests else fst prev))
          (np_mean refs)
          (fsub (np_mean refs) (if int k = 0 then np_mean refs else snd prev)),
        WandbLogGlobal (np_mean tests) (np_mean refs),
        WandbLogClients (int k) trains tests refs]"
    by (simp only: r(8) rep1 calls_in_append calls_in_map_Pair_same rep0 append_Nil)
  have rp: "calls_in (int k) (reports out') = expected_reports k tr'"
  proof (cases "k = 0")
    case True
    with step tests refs trains show ?thesis
      by (simp add: expected_reports_def Let_def)
  next
    case False
    with prev_eq have "prev = (np_mean (test_accuracies tr' ! (k - 1)),
                              np_mean (ref_accuracies tr' ! (k - 1)))"
      by simp
    with False step tests refs trains show ?thesis
      by (simp add: expected_reports_def Let_def)
  qed
  have now: "round_done env k tr' out'"
    using rs rc sc rp by (simp add: round_done_def)
  have all: "\<forall>e<Suc k. round_done env e tr' out'"
  proof (intro allI impI)
    fix e assume "e < Suc k"
    then consider "e < k" | "e = k" by linarith
    then show "round_done env e tr' out'"
    proof cases
      case 1
      from round_done_stable [OF old [OF 1] 1 fr] show ?thesis .
    next
      case 2
      with now show ?thesis by simp
    qed
  qed
  from fr obtain evs rs' where ext: "calls out' = calls out @ map (Pair (int k)) evs"
    "reports out' = reports out @ map (Pair (int k)) rs'"
    unfolding frame_def by blast
  have ctag': "\<forall>x\<in>set (calls out'). 0 \<le> fst x \<and> fst x < int (Suc k)"
    using ctag ext(1) by (rule tags_below_append)
  have rtag': "\<forall>x\<in>set (reports out'). 0 \<le> fst x \<and> fst x < int (Suc k)"
    using rtag ext(2) by (rule tags_below_append)
  have free': "\<forall>r. int (Suc k) \<le> r \<longrightarrow> trust_weights_round tr' r = None"
  proof (intro allI impI)
    fix r assume a: "int (Suc k) \<le> r"
    then have "r \<noteq> int k" by simp
    with fr have "trust_weights_round tr' r = trust_weights_round tr r"
      by (simp add: frame_def)
    with free [of r] a show "trust_weights_round tr' r = None" by simp
  qed
  have prev': "prev' = (np_mean (test_accuracies tr' ! (Suc k - 1)),
                        np_mean (ref_accuracies tr' ! (Suc k - 1)))"
    using r(6) tests refs by simp
  from len1 all ctag' rtag' free' prev' have "completed env (Suc k) prev' tr' out'"
    unfolding completed_def by blast
  with fr show ?thesis by blast
qed

lemma same_config_refl: "same_config tr tr"
  by (simp add: same_config_def)

lemma same_config_trans: "same_config a b \<Longrightarrow> same_config b c \<Longrightarrow> same_config a c"
  by (simp add: same_config_def)

lemma frame_same_config: "frame k tr out tr' out' \<Longrightarrow> same_config tr tr'"
  by (simp add: frame_def)

lemma train_loop_completed:
  assumes "completed env k prev tr out"
    and "train_loop env (map int [k..<k + j]) prev (tr, out) = Inr (prev', tr', out')"
  shows "completed env (k + j) prev' tr' out' \<and> same_config tr tr'"
  using assms
proof (induction j arbitrary: k prev tr out)
  case 0
  then show ?case by (simp add: same_config_refl)
next
  case (Suc j)
  have eq: "map int [k..<k + Suc j] = int k # map int [Suc k..<Suc k + j]"
  proof -
    have "[k..<k + Suc j] = k # [Suc k..<k + Suc j]"
      by (rule upt_conv_Cons) simp
    then show ?thesis
      by (simp only: list.map add_Suc add_Suc_right)
  qed
  from Suc.prems(2) have
    "bind_err (train_round env (int k) prev (tr, out))
       (\<lambda>(prev', s'). train_loop env (map int [Suc k..<Suc k + j]) prev' s') =
     Inr (prev', tr', out')"
    by (simp only: eq train_loop.simps)
  then obtain v where
    v: "train_round env (int k) prev (tr, out) = Inr v"
      "(\<lambda>(prev', s'). train_loop env (map int [Suc k..<Suc k + j]) prev' s') v =
       Inr (prev', tr', out')"
    unfolding bind_err_eq_Inr by blast
  obtain prev1 tr1 out1 where w: "v = (prev1, tr1, out1)"
    by (cases v) auto
  from v(1) have a: "train_round env (int k) prev (tr, out) = Inr (prev1, tr1, out1)"
    by (simp only: w)
  from v(2) have
    b: "train_loop env (map int [Suc k..<Suc k + j]) prev1 (tr1, out1) = Inr (prev', tr', out')"
    by (simp only: w prod.case)
  from train_round_completed [OF Suc.prems(1) a] have
    c: "completed env (Suc k) prev1 tr1 out1" and d: "frame k tr out tr1 out1"
    by simp_all
  from Suc.IH [OF c b] frame_same_config [OF d] show ?case
    by (auto intro: same_config_trans)
qed

lemma fresh_run_completed:
  assumes "fresh_run env cl rl css pr nle m n w = Inr (res, tr, out)"
  shows "\<exists>prev. completed env (nat n) prev tr out"
    and "clients tr = cl" and "pretraining_rounds tr = pr" and "num_local_epochs tr = nle"
    and "res = (trust_weights_round tr, test_accuracies tr, ref_accuracies tr)"
proof -
  from assms obtain tr0 where
    i: "init env cl rl css pr nle m = Inr tr0" and
    t: "train env n (tr0, \<lparr>world = w, calls = [], reports = []\<rparr>) = Inr (res, tr, out)"
    by (auto simp: fresh_run_def bind_err_eq_Inr)
  from i have f: "clients tr0 = cl" "pretraining_rounds tr0 = pr" "num_local_epochs tr0 = nle"
    "soft_decisions tr0 = []" "train_accuracies tr0 = []" "test_accuracies tr0 = []"
    "ref_accuracies tr0 = []" "trust_weights_round tr0 = Map.empty"
    by (auto simp: init_def bind_err_eq_Inr)
  from f have c0: "completed env 0 (Num 0, Num 0) tr0 \<lparr>world = w, calls = [], reports = []\<rparr>"
    by (simp add: completed_def round_lengths_def)
  from t obtain prev' where
    l: "train_loop env (map int [0..<0 + nat n]) (Num 0, Num 0)
          (tr0, \<lparr>world = w, calls = [], reports = []\<rparr>) = Inr (prev', tr, out)"
    and r: "res = (trust_weights_round tr, test_accuracies tr, ref_accuracies tr)"
    by (auto simp: train_def bind_err_eq_Inr)
  from train_loop_completed [OF c0 l] have
    c: "completed env (nat n) prev' tr out" and s: "same_config tr0 tr"
    by simp_all
  from c show "\<exists>prev. completed env (nat n) prev tr out" by blast
  from s f show "clients tr = cl" "pretraining_rounds tr = pr" "num_local_epochs tr = nle"
    by (simp_all add: same_config_def)
  from r show "res = (trust_weights_round tr, test_accuracies tr, ref_accuracies tr)" .
qed

lemma fresh_run_round:
  assumes run: "fresh_run env cl rl css pr nle m n w = Inr (res, tr, out)"
    and e: "0 \<le> e" "e < n"
  shows "round_done env (nat e) tr out" and "int (nat e) = e"
    and "length (test_accuracies tr) = nat n"
proof -
  from fresh_run_completed(1) [OF run] obtain prev where
    c: "completed env (nat n) prev tr out" by blast
  from e have "nat e < nat n" by simp
  with c show "round_done env (nat e) tr out" by (simp add: completed_def)
  from e show "int (nat e) = e" by simp
  from c show "length (test_accuracies tr) = nat n"
    by (simp add: completed_def round_lengths_def)
qed

end
